theory Spec2Isabelle
  imports Complex_Main "HOL-Library.Word"
begin

section \<open>MIDI clock to JACK transport bridge: the embedding\<close>

text \<open>
  The program keeps one global \<^verbatim>\<open>BPMState\<close> and mutates it from three entry points:
  the MIDI event handler \<^verbatim>\<open>process_midi_clock\<close>, the JACK process callback and the
  JACK timebase callback (plus \<^verbatim>\<open>reset_transport\<close> from the keyboard thread).
  Each entry point is a function from the state to the new state.

  Conventions of the embedding:
  \<^item> \<^verbatim>\<open>double\<close> is \<^typ>\<open>real\<close>: the arithmetic of the source is taken exactly, rounding
    of binary64 is not part of the model;
  \<^item> \<^verbatim>\<open>jack_nframes_t\<close> is \<^verbatim>\<open>uint32_t\<close>, a \<^typ>\<open>32 word\<close>: adding frames wraps;
  \<^item> \<^verbatim>\<open>std::atomic<int> measurement_count\<close> is a \<^typ>\<open>32 word\<close> read as signed
    (\<^const>\<open>sint\<close>): atomic increments wrap in two's complement;
  \<^item> the plain \<^verbatim>\<open>int\<close> counters (\<^verbatim>\<open>pulse_count\<close>, \<^verbatim>\<open>stability_counter\<close>) and the
    \<^verbatim>\<open>int32_t\<close> bar, beat and tick are \<^typ>\<open>int\<close>: overflowing them is undefined in
    C++ and lies outside the model, as does converting a \<^verbatim>\<open>double\<close> beyond the range of
    \<^verbatim>\<open>int32_t\<close>;
  \<^item> a \<^verbatim>\<open>time_point\<close> of \<^verbatim>\<open>high_resolution_clock\<close> is its count of nanoseconds, an
    \<^typ>\<open>int\<close>; a function that calls \<^verbatim>\<open>now()\<close> takes the instant as an argument;
  \<^item> calls into the JACK and ALSA libraries change nothing in \<^verbatim>\<open>BPMState\<close> and are left
    out; of the console output only the values of the per-measurement line are kept.
\<close>

subsection \<open>Configuration\<close>

definition PULSES_PER_QUARTER :: int where
  "PULSES_PER_QUARTER = 24"

definition MIN_BPM :: real where
  "MIN_BPM = 20.0"

definition MAX_BPM :: real where
  "MAX_BPM = 300.0"

definition SMOOTHING_FACTOR :: real where
  "SMOOTHING_FACTOR = 0.3"

definition BPM_SNAP_THRESHOLD :: real where
  "BPM_SNAP_THRESHOLD = 0.15"

definition BPM_STABILITY_COUNT :: int where
  "BPM_STABILITY_COUNT = 3"

subsection \<open>Library functions of C++ used by the program\<close>

text \<open>\<^verbatim>\<open>std::round\<close>: nearest integer, halfway cases away from zero.\<close>

definition std_round :: "real \<Rightarrow> real" where
  "std_round x = (if 0 \<le> x then of_int \<lfloor>x + 1 / 2\<rfloor> else - of_int \<lfloor>- x + 1 / 2\<rfloor>)"

text \<open>The conversion \<^verbatim>\<open>(int32_t) x\<close> of a double: truncation towards zero.\<close>

definition to_int32 :: "real \<Rightarrow> int" where
  "to_int32 x = (if 0 \<le> x then \<lfloor>x\<rfloor> else - \<lfloor>- x\<rfloor>)"

text \<open>\<^verbatim>\<open>fmod x y\<close>: the remainder \<open>x - n * y\<close> with \<open>n\<close> the quotient truncated towards zero.\<close>

definition fmod :: "real \<Rightarrow> real \<Rightarrow> real" where
  "fmod x y = x - of_int (to_int32 (x / y)) * y"

text \<open>
  \<^verbatim>\<open>duration_cast<microseconds>(d).count()\<close> of a duration in nanoseconds: integer division
  by 1000, truncated towards zero.
\<close>

definition duration_cast_microseconds :: "int \<Rightarrow> int" where
  "duration_cast_microseconds d = sgn d * (\<bar>d\<bar> div 1000)"

subsection \<open>Global state\<close>

record BPMState =
  current_bpm :: real
  pulse_count :: int
  last_pulse_time :: int
  transport_rolling :: bool
  first_clock_received :: bool
  last_snapped_bpm :: real
  stability_counter :: int
  measurement_count :: "32 word"
  bar :: int
  beat :: int
  tick :: int
  current_frame :: "32 word"
  transport_start_time :: int
  sample_rate :: "32 word"
  last_updated_jack_bpm :: real
  g_jack_client :: bool

text \<open>
  The last field is the global \<^verbatim>\<open>g_jack_client\<close>, kept with the state: \<^const>\<open>True\<close> when the
  pointer is not null. \<^verbatim>\<open>main\<close> opens the client before it enters the event loop and
  returns when that fails, so events and callbacks only ever see it set.

  The state the event loop starts from: the member initialisers of \<^verbatim>\<open>BPMState\<close>, the sample
  rate read from the server, and the client open.
\<close>

definition initial_state :: "32 word \<Rightarrow> BPMState" where
  "initial_state rate =
     \<lparr> current_bpm = 120.0, pulse_count = 0, last_pulse_time = 0,
       transport_rolling = False, first_clock_received = False,
       last_snapped_bpm = 0.0, stability_counter = 0, measurement_count = 0,
       bar = 1, beat = 1, tick = 0, current_frame = 0, transport_start_time = 0,
       sample_rate = rate, last_updated_jack_bpm = 0.0, g_jack_client = True \<rparr>"

text \<open>The fields of \<^verbatim>\<open>jack_position_t\<close> that the timebase callback reads or writes.\<close>

record jack_position =
  pos_frame :: "32 word"
  pos_valid :: "32 word"
  pos_beats_per_bar :: real
  pos_beat_type :: real
  pos_ticks_per_beat :: real
  pos_beats_per_minute :: real
  pos_bar :: int
  pos_beat :: int
  pos_tick :: int
  pos_bar_start_tick :: real

text \<open>The bit \<^verbatim>\<open>JackPositionBBT\<close> of \<^verbatim>\<open>jack_position_bits_t\<close> (from the JACK headers).\<close>

definition JackPositionBBT :: "32 word" where
  "JackPositionBBT = 0x10"

text \<open>The event types of the ALSA sequencer that the handler distinguishes.\<close>

datatype snd_seq_event_type =
  SND_SEQ_EVENT_CLOCK | SND_SEQ_EVENT_START | SND_SEQ_EVENT_STOP
  | SND_SEQ_EVENT_CONTINUE | SND_SEQ_EVENT_OTHER

text \<open>What the line printed after each measurement shows: the final and the raw BPM.\<close>

record bpm_log =
  log_bpm :: real
  log_raw :: real

subsection \<open>Transport reset\<close>

definition reset_transport :: "BPMState \<Rightarrow> BPMState" where
  "reset_transport s =
     (let s1 = (if g_jack_client s
                then s\<lparr> transport_rolling := False, current_frame := 0,
                        bar := 1, beat := 1, tick := 0 \<rparr>
                else s)
      in s1\<lparr> pulse_count := 0, measurement_count := 0, first_clock_received := False \<rparr>)"

subsection \<open>JACK process callback\<close>

text \<open>The callback always returns 0; only its effect on the state is kept.\<close>

definition jack_process_callback :: "BPMState \<Rightarrow> 32 word \<Rightarrow> BPMState" where
  "jack_process_callback s nframes =
     (if transport_rolling s
      then (let current = current_frame s in s\<lparr> current_frame := current + nframes \<rparr>)
      else s)"

subsection \<open>JACK timebase callback\<close>

text \<open>
  The callback gets the host's position structure and the flag \<^verbatim>\<open>new_pos\<close>; it returns the
  state and the structure as it leaves them. A sample rate of zero makes the source divide
  by zero; the theorems about the computed position assume it is not.
\<close>

definition jack_timebase_callback ::
  "BPMState \<Rightarrow> jack_position \<Rightarrow> int \<Rightarrow> BPMState \<times> jack_position" where
  "jack_timebase_callback s pos new_pos =
     (let bpm = current_bpm s;
          rate = sample_rate s;
          (s1, pos1) = (if new_pos \<noteq> 0
                        then (s, pos\<lparr> pos_frame := current_frame s \<rparr>)
                        else (s\<lparr> current_frame := pos_frame pos \<rparr>, pos));
          pos2 = pos1\<lparr> pos_valid := JackPositionBBT, pos_beats_per_bar := 4.0,
                       pos_beat_type := 4.0, pos_ticks_per_beat := 1920.0,
                       pos_beats_per_minute := bpm \<rparr>;
          seconds_elapsed = real (unat (pos_frame pos2)) / real (unat rate);
          beats_elapsed = (bpm / 60.0) * seconds_elapsed;
          beats_per_bar = pos_beats_per_bar pos2;
          total_bars = beats_elapsed / beats_per_bar;
          pos3 = pos2\<lparr> pos_bar := to_int32 total_bars + 1 \<rparr>;
          beat_in_bar = fmod beats_elapsed beats_per_bar;
          pos4 = pos3\<lparr> pos_beat := to_int32 beat_in_bar + 1 \<rparr>;
          tick_in_beat = fmod beat_in_bar 1.0 * pos_ticks_per_beat pos4;
          pos5 = pos4\<lparr> pos_tick := to_int32 tick_in_beat \<rparr>;
          pos6 = pos5\<lparr> pos_bar_start_tick :=
                         of_int (pos_bar pos5 - 1) * beats_per_bar * pos_ticks_per_beat pos5 \<rparr>
      in (s1\<lparr> bar := pos_bar pos6, beat := pos_beat pos6, tick := pos_tick pos6 \<rparr>, pos6))"

subsection \<open>BPM snapping\<close>

text \<open>
  \<^verbatim>\<open>snap_bpm\<close> has two \<^verbatim>\<open>double\<close> parameters; the first is unnamed and unused. It
  returns a BPM and updates the stability fields of the state.
\<close>

definition snap_bpm :: "BPMState \<Rightarrow> real \<Rightarrow> real \<Rightarrow> real \<times> BPMState" where
  "snap_bpm s unused smoothed_bpm =
     (let nearest_int = std_round smoothed_bpm;
          distance = \<bar>smoothed_bpm - nearest_int\<bar>
      in if distance \<le> BPM_SNAP_THRESHOLD
         then (let s1 = (if \<bar>last_snapped_bpm s - nearest_int\<bar> < 0.5
                         then s\<lparr> stability_counter := stability_counter s + 1 \<rparr>
                         else s\<lparr> stability_counter := 1, last_snapped_bpm := nearest_int \<rparr>)
               in if stability_counter s1 \<ge> BPM_STABILITY_COUNT
                  then (nearest_int, s1)
                  else (smoothed_bpm, s1))
         else (smoothed_bpm, s\<lparr> stability_counter := 0 \<rparr>))"

subsection \<open>JACK transport update\<close>

definition update_jack_transport_bpm :: "BPMState \<Rightarrow> real \<Rightarrow> BPMState" where
  "update_jack_transport_bpm s bpm =
     (if \<not> g_jack_client s then s
      else (let last_bpm = last_updated_jack_bpm s
            in if \<bar>bpm - last_bpm\<bar> > 0.3 then s\<lparr> last_updated_jack_bpm := bpm \<rparr> else s))"

subsection \<open>BPM calculation\<close>

text \<open>
  One call per MIDI clock pulse, at the instant \<open>now\<close>. The result is the new state and
  the measurement line, when the pulse produced one.
\<close>

definition calculate_and_set_bpm :: "BPMState \<Rightarrow> int \<Rightarrow> BPMState \<times> bpm_log option" where
  "calculate_and_set_bpm s now =
     (let count = pulse_count s
      in if \<not> first_clock_received s
         then (let s1 = s\<lparr> first_clock_received := True, last_pulse_time := now,
                           pulse_count := 0, transport_start_time := now \<rparr>
               in (if g_jack_client s1 \<and> \<not> transport_rolling s1
                   then s1\<lparr> transport_rolling := True \<rparr> else s1, None))
         else (let count = count + 1
               in if count \<ge> PULSES_PER_QUARTER
                  then (let elapsed = duration_cast_microseconds (now - last_pulse_time s);
                            (s5, out) =
                              (if elapsed > 0
                               then (let raw_bpm = 60000000.0 / of_int elapsed;
                                         raw_bpm = max MIN_BPM (min MAX_BPM raw_bpm);
                                         current = current_bpm s;
                                         mcount = sint (measurement_count s);
                                         smoothed_bpm =
                                           (if mcount < 5 \<or> \<bar>raw_bpm - current\<bar> > 10.0
                                            then current * 0.1 + raw_bpm * 0.9
                                            else if mcount < 10 \<or> \<bar>raw_bpm - current\<bar> > 3.0
                                            then current * 0.5 + raw_bpm * 0.5
                                            else current * (1.0 - SMOOTHING_FACTOR)
                                                 + raw_bpm * SMOOTHING_FACTOR);
                                         (final_bpm, s1) = snap_bpm s raw_bpm smoothed_bpm;
                                         s2 = s1\<lparr> current_bpm := final_bpm \<rparr>;
                                         s3 = s2\<lparr> measurement_count := measurement_count s2 + 1 \<rparr>;
                                         s4 = update_jack_transport_bpm s3 final_bpm
                                     in (s4, Some \<lparr> log_bpm = final_bpm, log_raw = raw_bpm \<rparr>))
                               else (s, None))
                        in (s5\<lparr> pulse_count := 0, last_pulse_time := now \<rparr>, out))
                  else (s\<lparr> pulse_count := count \<rparr>, None)))"

subsection \<open>MIDI event processing\<close>

text \<open>The event pointer may be null (\<^const>\<open>None\<close>); \<open>now\<close> is the instant of the call.\<close>

definition process_midi_clock ::
  "BPMState \<Rightarrow> int \<Rightarrow> snd_seq_event_type option \<Rightarrow> BPMState \<times> bpm_log option" where
  "process_midi_clock s now ev =
     (case ev of
        None \<Rightarrow> (s, None)
      | Some SND_SEQ_EVENT_CLOCK \<Rightarrow> calculate_and_set_bpm s now
      | Some SND_SEQ_EVENT_START \<Rightarrow>
          (let s1 = (if g_jack_client s
                     then s\<lparr> current_frame := 0, bar := 1, beat := 1, tick := 0,
                             transport_rolling := True \<rparr>
                     else s)
           in (s1\<lparr> pulse_count := 0, measurement_count := 0,
                    first_clock_received := False, transport_start_time := now \<rparr>, None))
      | Some SND_SEQ_EVENT_STOP \<Rightarrow>
          (let s1 = (if g_jack_client s then s\<lparr> transport_rolling := False \<rparr> else s)
           in (s1\<lparr> pulse_count := 0, first_clock_received := False \<rparr>, None))
      | Some SND_SEQ_EVENT_CONTINUE \<Rightarrow>
          ((if g_jack_client s then s\<lparr> transport_rolling := True \<rparr> else s), None)
      | Some SND_SEQ_EVENT_OTHER \<Rightarrow> (s, None))"

subsection \<open>Runs of the program\<close>

text \<open>
  The entry points through which the state changes once the event loop runs: a MIDI event
  arriving at some instant, the two JACK callbacks, and the reset command.
\<close>

datatype action =
  MidiEvent int "snd_seq_event_type option"
  | ProcessCallback "32 word"
  | TimebaseCallback jack_position int
  | ResetTransport

fun step :: "BPMState \<Rightarrow> action \<Rightarrow> BPMState" where
  "step s (MidiEvent now ev) = fst (process_midi_clock s now ev)"
| "step s (ProcessCallback nframes) = jack_process_callback s nframes"
| "step s (TimebaseCallback pos new_pos) = fst (jack_timebase_callback s pos new_pos)"
| "step s ResetTransport = reset_transport s"

definition run :: "BPMState \<Rightarrow> action list \<Rightarrow> BPMState" where
  "run s acts = foldl step s acts"

subsection \<open>The formulas of the specification\<close>




text \<open>The smoothing rule as the specification words it.\<close>

definition spec_smoothed :: "int \<Rightarrow> real \<Rightarrow> real \<Rightarrow> real" where
  "spec_smoothed mcount current raw =
     (if mcount < 5 \<or> \<bar>raw - current\<bar> > 10 then 0.1 * current + 0.9 * raw
      else if mcount < 10 \<or> \<bar>raw - current\<bar> > 3 then 0.5 * current + 0.5 * raw
      else 0.7 * current + 0.3 * raw)"

subsection \<open>Sequences of clock pulses and of measurements\<close>

text \<open>
  \<open>feed_clock\<close> hands the clock pulses arriving at the given instants to
  \<^const>\<open>calculate_and_set_bpm\<close>, one after the other, and collects the lines produced.
  \<open>even_pulses t0 T n\<close> are the instants (in nanoseconds) of \<open>n\<close> pulses, the first at
  \<open>t0\<close>, each \<open>T\<close> microseconds after the one before.
\<close>

fun feed_clock :: "BPMState \<Rightarrow> int list \<Rightarrow> BPMState \<times> bpm_log option list" where
  "feed_clock s [] = (s, [])"
| "feed_clock s (now # ts) =
     (let (s1, out) = calculate_and_set_bpm s now;
          (s2, outs) = feed_clock s1 ts
      in (s2, out # outs))"

definition even_pulses :: "int \<Rightarrow> int \<Rightarrow> nat \<Rightarrow> int list" where
  "even_pulses t0 T n = map (\<lambda>k. t0 + 1000 * T * int k) [0..<n]"



subsection \<open>Invariants and example states\<close>

definition bpm_in_range :: "BPMState \<Rightarrow> bool" where
  "bpm_in_range s \<longleftrightarrow> MIN_BPM \<le> current_bpm s \<and> current_bpm s \<le> MAX_BPM"

text \<open>A position structure as the host hands it in, with only the frame filled in.\<close>

definition host_position :: "32 word \<Rightarrow> jack_position" where
  "host_position f =
     \<lparr> pos_frame = f, pos_valid = 0, pos_beats_per_bar = 0, pos_beat_type = 0,
       pos_ticks_per_beat = 0, pos_beats_per_minute = 0, pos_bar = 0, pos_beat = 0,
       pos_tick = 0, pos_bar_start_tick = 0 \<rparr>"

text \<open>A rolling transport at 120 BPM and 48 kHz whose frame counter stands at \<open>f\<close>.\<close>

definition tracked_state :: "32 word \<Rightarrow> BPMState" where
  "tracked_state f = (initial_state 48000)\<lparr> current_frame := f, transport_rolling := True \<rparr>"

text \<open>
  A state one pulse before the end of a measurement window: 23 pulses counted since the
  boundary at the instant \<open>t\<close>.
\<close>

definition boundary_state :: "int \<Rightarrow> BPMState" where
  "boundary_state t =
     (initial_state 48000)\<lparr> first_clock_received := True, pulse_count := 23,
                             last_pulse_time := t, transport_rolling := True \<rparr>"

section \<open>Properties\<close>

subsection \<open>Auxiliary facts\<close>

lemma foldl_process_frame_only:
  "\<exists>c. foldl jack_process_callback s ns = s\<lparr> current_frame := c \<rparr>"
proof (induction ns arbitrary: s)
  case Nil
  have "s = s\<lparr> current_frame := current_frame s \<rparr>" by simp
  then show ?case by (metis foldl_Nil)
next
  case (Cons n ns)
  obtain c where c: "foldl jack_process_callback (jack_process_callback s n) ns
      = (jack_process_callback s n)\<lparr> current_frame := c \<rparr>"
    using Cons.IH by blast
  have "(jack_process_callback s n)\<lparr> current_frame := c \<rparr> = s\<lparr> current_frame := c \<rparr>"
    by (simp add: jack_process_callback_def Let_def)
  with c show ?case by auto
qed

lemma foldl_process_stopped:
  "\<not> transport_rolling s \<Longrightarrow> foldl jack_process_callback s ns = s"
  by (induction ns) (simp_all add: jack_process_callback_def)





text \<open>
  With a tempo of at most 300 BPM and a sample rate of at least 3 Hz the bar number stays
  within the range of \<^verbatim>\<open>int32_t\<close> for every frame, so the conversion in the timebase
  callback is defined there.
\<close>

lemma bar_in_int32_range:
  fixes F R :: "32 word"
  assumes "0 \<le> B" and "B \<le> 300" and "3 \<le> unat R"
  shows "0 \<le> to_int32 ((B / 60) * (real (unat F) / real (unat R)) / 4)
         \<and> to_int32 ((B / 60) * (real (unat F) / real (unat R)) / 4) + 1 < 2 ^ 31"
proof -
  define f where "f = real (unat F)"
  define r where "r = real (unat R)"
  define x where "x = (B / 60) * (f / r) / 4"
  have f: "0 \<le> f" "f \<le> 4294967296"
    using unsigned_less [of F, where ?'a = nat] by (simp_all add: f_def del: of_nat_unat)
  have r: "3 \<le> r" using assms(3) by (simp add: r_def del: of_nat_unat)
  have x0: "0 \<le> x"
    unfolding x_def using assms(1) f(1) r
    by (intro mult_nonneg_nonneg divide_nonneg_nonneg) simp_all
  have "f / r \<le> 4294967296 / 3"
    using f r by (intro frac_le) simp_all
  then have "(B / 60) * (f / r) \<le> (300 / 60) * (4294967296 / 3)"
    using assms(1,2) f(1) r by (intro mult_mono) simp_all
  then have "x \<le> 1789569707" by (simp add: x_def)
  then have "\<lfloor>x\<rfloor> \<le> 1789569707" by (simp add: floor_le_iff)
  moreover have "0 \<le> \<lfloor>x\<rfloor>" using x0 by simp
  ultimately show ?thesis
    unfolding x_def [symmetric] f_def [symmetric] r_def [symmetric]
    using x0 by (simp add: to_int32_def)
qed

lemma snap_bpm_measurement_count:
  "measurement_count (snd (snap_bpm s r x)) = measurement_count s"
  by (simp add: snap_bpm_def Let_def)

text \<open>
  The pulse that closes a window with a positive elapsed time: the state and the line it
  produces, with the raw and the smoothed BPM as the source computes them.
\<close>

lemma calculate_measurement:
  assumes "first_clock_received s"
    and "pulse_count s + 1 \<ge> PULSES_PER_QUARTER"
    and "0 < duration_cast_microseconds (now - last_pulse_time s)"
  defines "raw \<equiv> max MIN_BPM (min MAX_BPM
             (60000000.0 / of_int (duration_cast_microseconds (now - last_pulse_time s))))"
  defines "smoothed \<equiv>
            (if sint (measurement_count s) < 5 \<or> \<bar>raw - current_bpm s\<bar> > 10.0
             then current_bpm s * 0.1 + raw * 0.9
             else if sint (measurement_count s) < 10 \<or> \<bar>raw - current_bpm s\<bar> > 3.0
             then current_bpm s * 0.5 + raw * 0.5
             else current_bpm s * (1.0 - SMOOTHING_FACTOR) + raw * SMOOTHING_FACTOR)"
  shows "calculate_and_set_bpm s now =
           ((update_jack_transport_bpm
               ((snd (snap_bpm s raw smoothed))
                  \<lparr> current_bpm := fst (snap_bpm s raw smoothed),
                    measurement_count := measurement_count s + 1 \<rparr>)
               (fst (snap_bpm s raw smoothed)))
              \<lparr> pulse_count := 0, last_pulse_time := now \<rparr>,
            Some \<lparr> log_bpm = fst (snap_bpm s raw smoothed), log_raw = raw \<rparr>)"
proof -
  have "calculate_and_set_bpm s now =
           ((update_jack_transport_bpm
               ((snd (snap_bpm s raw smoothed))
                  \<lparr> current_bpm := fst (snap_bpm s raw smoothed),
                    measurement_count :=
                      measurement_count (snd (snap_bpm s raw smoothed)) + 1 \<rparr>)
               (fst (snap_bpm s raw smoothed)))
              \<lparr> pulse_count := 0, last_pulse_time := now \<rparr>,
            Some \<lparr> log_bpm = fst (snap_bpm s raw smoothed), log_raw = raw \<rparr>)"
    unfolding calculate_and_set_bpm_def Let_def case_prod_beta raw_def smoothed_def
    using assms(1-3) by simp
  then show ?thesis by (simp only: snap_bpm_measurement_count)
qed

lemma spec_smoothed_code:
  "(if mcount < 5 \<or> \<bar>raw - current\<bar> > 10.0
    then current * 0.1 + raw * 0.9
    else if mcount < 10 \<or> \<bar>raw - current\<bar> > 3.0
    then current * 0.5 + raw * 0.5
    else current * (1.0 - SMOOTHING_FACTOR) + raw * SMOOTHING_FACTOR)
   = spec_smoothed mcount current raw"
  unfolding spec_smoothed_def SMOOTHING_FACTOR_def by simp

lemma std_round_range:
  assumes "20 \<le> x" and "x \<le> 300"
  shows "20 \<le> std_round x \<and> std_round x \<le> 300"
proof -
  have "(20::int) \<le> \<lfloor>x + 1 / 2\<rfloor>" using assms(1) by linarith
  moreover have "\<lfloor>x + 1 / 2\<rfloor> \<le> (300::int)" using assms(2) by linarith
  ultimately show ?thesis using assms(1) by (simp add: std_round_def)
qed

lemma snap_bpm_cases:
  "fst (snap_bpm s r x) = x \<or> fst (snap_bpm s r x) = std_round x"
  by (simp add: snap_bpm_def Let_def)

lemma snap_bpm_range:
  assumes "20 \<le> x" and "x \<le> 300"
  shows "20 \<le> fst (snap_bpm s r x) \<and> fst (snap_bpm s r x) \<le> 300"
  using snap_bpm_cases [of s r x] std_round_range [OF assms] assms by auto

text \<open>Each of the three blends lies between its two arguments.\<close>

lemma smoothed_range:
  assumes "20 \<le> c" "c \<le> 300" "20 \<le> r" "r \<le> (300::real)"
  shows "20 \<le> (if m < (5::int) \<or> \<bar>r - c\<bar> > 10.0 then c * 0.1 + r * 0.9
               else if m < 10 \<or> \<bar>r - c\<bar> > 3.0 then c * 0.5 + r * 0.5
               else c * (1.0 - SMOOTHING_FACTOR) + r * SMOOTHING_FACTOR)"
    and "(if m < (5::int) \<or> \<bar>r - c\<bar> > 10.0 then c * 0.1 + r * 0.9
               else if m < 10 \<or> \<bar>r - c\<bar> > 3.0 then c * 0.5 + r * 0.5
               else c * (1.0 - SMOOTHING_FACTOR) + r * SMOOTHING_FACTOR) \<le> 300"
  using assms unfolding SMOOTHING_FACTOR_def by (auto split: if_splits)

lemma update_jack_transport_bpm_current:
  "current_bpm (update_jack_transport_bpm s b) = current_bpm s"
  by (simp add: update_jack_transport_bpm_def Let_def)

lemma calculate_bpm_in_range:
  assumes "bpm_in_range s"
  shows "bpm_in_range (fst (calculate_and_set_bpm s now))"
proof (cases "first_clock_received s \<and> pulse_count s + 1 \<ge> PULSES_PER_QUARTER
    \<and> 0 < duration_cast_microseconds (now - last_pulse_time s)")
  case True
  define raw where "raw = max MIN_BPM (min MAX_BPM
      (60000000.0 / of_int (duration_cast_microseconds (now - last_pulse_time s))))"
  define smoothed where "smoothed =
            (if sint (measurement_count s) < 5 \<or> \<bar>raw - current_bpm s\<bar> > 10.0
             then current_bpm s * 0.1 + raw * 0.9
             else if sint (measurement_count s) < 10 \<or> \<bar>raw - current_bpm s\<bar> > 3.0
             then current_bpm s * 0.5 + raw * 0.5
             else current_bpm s * (1.0 - SMOOTHING_FACTOR) + raw * SMOOTHING_FACTOR)"
  have r: "20 \<le> raw" "raw \<le> 300"
    by (simp_all add: raw_def MIN_BPM_def MAX_BPM_def)
  have c: "20 \<le> current_bpm s" "current_bpm s \<le> 300"
    using assms by (simp_all add: bpm_in_range_def MIN_BPM_def MAX_BPM_def)
  have sm: "20 \<le> smoothed" "smoothed \<le> 300"
    unfolding smoothed_def using smoothed_range [OF c r] by blast+
  have "current_bpm (fst (calculate_and_set_bpm s now)) = fst (snap_bpm s raw smoothed)"
    using True calculate_measurement [of s now]
    by (simp add: raw_def smoothed_def update_jack_transport_bpm_current)
  with snap_bpm_range [OF sm] show ?thesis
    by (simp add: bpm_in_range_def MIN_BPM_def MAX_BPM_def)
next
  case False
  then have "current_bpm (fst (calculate_and_set_bpm s now)) = current_bpm s"
    by (auto simp add: calculate_and_set_bpm_def Let_def)
  with assms show ?thesis by (simp add: bpm_in_range_def)
qed

lemma step_bpm_in_range:
  assumes "bpm_in_range s"
  shows "bpm_in_range (step s a)"
proof (cases a)
  case (MidiEvent now ev)
  show ?thesis
  proof (cases ev)
    case None
    with MidiEvent assms show ?thesis by (simp add: process_midi_clock_def)
  next
    case (Some e)
    with MidiEvent assms calculate_bpm_in_range [OF assms, of now] show ?thesis
      by (cases e) (simp_all add: process_midi_clock_def Let_def bpm_in_range_def)
  qed
next
  case (ProcessCallback n)
  with assms show ?thesis by (simp add: jack_process_callback_def Let_def bpm_in_range_def)
next
  case (TimebaseCallback pos new_pos)
  with assms show ?thesis
    by (simp add: jack_timebase_callback_def Let_def bpm_in_range_def)
next
  case ResetTransport
  with assms show ?thesis by (simp add: reset_transport_def Let_def bpm_in_range_def)
qed

lemma run_bpm_in_range:
  "bpm_in_range s \<Longrightarrow> bpm_in_range (run s acts)"
  unfolding run_def by (induction acts arbitrary: s) (simp_all add: step_bpm_in_range)

lemma initial_bpm_in_range: "bpm_in_range (initial_state rate)"
  by (simp add: bpm_in_range_def initial_state_def MIN_BPM_def MAX_BPM_def)

subsection \<open>Position query on a relocation\<close>

text \<open>
  Claim C2 says that a query with \<^verbatim>\<open>new_pos\<close> set takes the frame the host supplies and
  then sets the internal frame counter to it. The source does the reverse, as its comment
  ("reset to our tracked position") says. With the internal counter at 24000 and the
  host's frame at 0, the query answers for frame 24000 (beat 2 at 120 BPM and 48 kHz) and
  the counter stays at 24000.
\<close>

theorem relocation_honours_host_frame_counterexample:
  "pos_frame (host_position 0) = 0
   \<and> current_frame (tracked_state 24000) = 24000
   \<and> pos_frame (snd (jack_timebase_callback (tracked_state 24000) (host_position 0) 1)) = 24000
   \<and> pos_beat (snd (jack_timebase_callback (tracked_state 24000) (host_position 0) 1)) = 2
   \<and> current_frame (fst (jack_timebase_callback (tracked_state 24000) (host_position 0) 1)) = 24000"
  by (simp add: jack_timebase_callback_def Let_def host_position_def tracked_state_def
      initial_state_def to_int32_def fmod_def)

text \<open>
  Claim C2, amended: when \<^verbatim>\<open>new_pos\<close> is set, the query replaces the frame the host
  supplied by the internally tracked frame counter for that invocation, computes the
  position from it (it answers as a normal query at the tracked frame would), and leaves
  the internal frame counter unchanged.
\<close>

theorem relocation_uses_tracked_frame:
  assumes "new_pos \<noteq> 0"
  shows "jack_timebase_callback s pos new_pos
           = jack_timebase_callback s (pos\<lparr> pos_frame := current_frame s \<rparr>) 0
         \<and> pos_frame (snd (jack_timebase_callback s pos new_pos)) = current_frame s
         \<and> current_frame (fst (jack_timebase_callback s pos new_pos)) = current_frame s"
  using assms by (simp add: jack_timebase_callback_def Let_def)

theorem relocation_uses_tracked_frame_witness:
  "(1::int) \<noteq> 0
   \<and> pos_frame (snd (jack_timebase_callback (tracked_state 24000) (host_position 0) 1))
       = current_frame (tracked_state 24000)
   \<and> current_frame (fst (jack_timebase_callback (tracked_state 24000) (host_position 0) 1))
       = current_frame (tracked_state 24000)"
proof -
  have h: "(1::int) \<noteq> 0" by simp
  from relocation_uses_tracked_frame [OF h, of "tracked_state 24000" "host_position 0"] h
  show ?thesis by blast
qed

subsection \<open>Adaptive smoothing\<close>

text \<open>
  Claim C4: on every measurement that is not discarded, with \<open>current\<close> the stored BPM
  and \<open>raw\<close> the clamped raw BPM, the smoothed value handed to \<^const>\<open>snap_bpm\<close> is
  \<open>0.1 * current + 0.9 * raw\<close> when fewer than 5 measurements were taken or the two differ
  by more than 10; otherwise \<open>0.5 * current + 0.5 * raw\<close> when fewer than 10 were taken or
  they differ by more than 3; otherwise \<open>0.7 * current + 0.3 * raw\<close>. The result of
  \<^const>\<open>snap_bpm\<close> on it becomes the stored BPM.
\<close>

theorem adaptive_smoothing_weights:
  assumes "first_clock_received s"
    and "pulse_count s + 1 \<ge> PULSES_PER_QUARTER"
    and "elapsed = duration_cast_microseconds (now - last_pulse_time s)"
    and "0 < elapsed"
    and "raw = max 20 (min 300 (60000000 / of_int elapsed))"
    and "smoothed = spec_smoothed (sint (measurement_count s)) (current_bpm s) raw"
  shows "calculate_and_set_bpm s now =
           ((update_jack_transport_bpm
               ((snd (snap_bpm s raw smoothed))
                  \<lparr> current_bpm := fst (snap_bpm s raw smoothed),
                    measurement_count := measurement_count s + 1 \<rparr>)
               (fst (snap_bpm s raw smoothed)))
              \<lparr> pulse_count := 0, last_pulse_time := now \<rparr>,
            Some \<lparr> log_bpm = fst (snap_bpm s raw smoothed), log_raw = raw \<rparr>)"
proof -
  have r: "max MIN_BPM (min MAX_BPM
             (60000000.0 / of_int (duration_cast_microseconds (now - last_pulse_time s)))) = raw"
    unfolding assms(5) assms(3) MIN_BPM_def MAX_BPM_def by simp
  have e: "0 < duration_cast_microseconds (now - last_pulse_time s)"
    using assms(3,4) by simp
  show ?thesis
    using calculate_measurement [OF assms(1,2) e]
    unfolding r spec_smoothed_code assms(6) .
qed

theorem adaptive_smoothing_weights_witness:
  "first_clock_received (boundary_state 0)
   \<and> pulse_count (boundary_state 0) + 1 \<ge> PULSES_PER_QUARTER
   \<and> (480000::int) = duration_cast_microseconds (480000000 - last_pulse_time (boundary_state 0))
   \<and> (125::real) = max 20 (min 300 (60000000 / of_int 480000))
   \<and> (124.5::real)
       = spec_smoothed (sint (measurement_count (boundary_state 0)))
           (current_bpm (boundary_state 0)) 125
   \<and> snd (calculate_and_set_bpm (boundary_state 0) 480000000)
       = Some \<lparr> log_bpm = fst (snap_bpm (boundary_state 0) 125 124.5), log_raw = 125 \<rparr>
   \<and> fst (snap_bpm (boundary_state 0) 125 124.5) = 124.5"
proof -
  have h1: "first_clock_received (boundary_state 0)"
    and h2: "pulse_count (boundary_state 0) + 1 \<ge> PULSES_PER_QUARTER"
    and h3: "(480000::int)
        = duration_cast_microseconds (480000000 - last_pulse_time (boundary_state 0))"
    by (simp_all add: boundary_state_def initial_state_def PULSES_PER_QUARTER_def
        duration_cast_microseconds_def)
  have h4: "(0::int) < 480000" by simp
  have h5: "(125::real) = max 20 (min 300 (60000000 / of_int 480000))" by simp
  have h6: "(124.5::real)
       = spec_smoothed (sint (measurement_count (boundary_state 0)))
           (current_bpm (boundary_state 0)) 125"
    by (simp add: spec_smoothed_def boundary_state_def initial_state_def)
  have s: "fst (snap_bpm (boundary_state 0) 125 124.5) = 124.5"
    by (simp add: snap_bpm_def std_round_def BPM_SNAP_THRESHOLD_def Let_def)
  have c: "snd (calculate_and_set_bpm (boundary_state 0) 480000000)
       = Some \<lparr> log_bpm = fst (snap_bpm (boundary_state 0) 125 124.5), log_raw = 125 \<rparr>"
    using adaptive_smoothing_weights [OF h1 h2 h3 h4 h5 h6] by (simp only: snd_conv)
  from h1 h2 h3 h5 h6 c s show ?thesis by blast
qed

subsection \<open>Position formulas\<close>



subsection \<open>The frame counter and the transport mode\<close>

text \<open>
  Claim C6: the process callback advances the frame counter only while the transport is
  rolling (then by the block size, modulo \<open>2^32\<close>); while it is stopped every call leaves
  the state as it is. In particular a Stop event received while rolling at frame 10000
  stops the transport, and the calls that follow leave the frame at 10000.
\<close>

theorem frame_advances_only_while_rolling:
  "(\<not> transport_rolling s \<longrightarrow> jack_process_callback s n = s)
   \<and> (current_frame (jack_process_callback s n) \<noteq> current_frame s \<longrightarrow> transport_rolling s)
   \<and> (transport_rolling s \<longrightarrow>
        current_frame (jack_process_callback s n) = current_frame s + n)
   \<and> (g_jack_client s \<and> transport_rolling s \<and> current_frame s = 10000 \<longrightarrow>
        \<not> transport_rolling (fst (process_midi_clock s now (Some SND_SEQ_EVENT_STOP)))
        \<and> current_frame (fst (process_midi_clock s now (Some SND_SEQ_EVENT_STOP))) = 10000
        \<and> current_frame (foldl jack_process_callback
              (fst (process_midi_clock s now (Some SND_SEQ_EVENT_STOP))) ns) = 10000)"
proof -
  have a: "\<not> transport_rolling s \<longrightarrow> jack_process_callback s n = s"
    by (simp add: jack_process_callback_def)
  have b: "transport_rolling s \<longrightarrow>
        current_frame (jack_process_callback s n) = current_frame s + n"
    by (simp add: jack_process_callback_def Let_def)
  have c: "\<not> transport_rolling (fst (process_midi_clock s now (Some SND_SEQ_EVENT_STOP)))
        \<and> current_frame (fst (process_midi_clock s now (Some SND_SEQ_EVENT_STOP))) = 10000
        \<and> current_frame (foldl jack_process_callback
              (fst (process_midi_clock s now (Some SND_SEQ_EVENT_STOP))) ns) = 10000"
    if h: "g_jack_client s \<and> transport_rolling s \<and> current_frame s = 10000"
  proof -
    define s' where "s' = fst (process_midi_clock s now (Some SND_SEQ_EVENT_STOP))"
    have r: "\<not> transport_rolling s'" and f: "current_frame s' = 10000"
      using h by (simp_all add: s'_def process_midi_clock_def Let_def)
    have "foldl jack_process_callback s' ns = s'"
      using r by (rule foldl_process_stopped)
    with r f show ?thesis by (simp add: s'_def)
  qed
  from a b c show ?thesis by metis
qed

theorem frame_advances_only_while_rolling_witness:
  "g_jack_client (tracked_state 10000) \<and> transport_rolling (tracked_state 10000)
   \<and> current_frame (tracked_state 10000) = 10000
   \<and> current_frame (jack_process_callback (tracked_state 10000) 256) = 10256
   \<and> \<not> transport_rolling (fst (process_midi_clock (tracked_state 10000) 0
          (Some SND_SEQ_EVENT_STOP)))
   \<and> current_frame (foldl jack_process_callback
        (fst (process_midi_clock (tracked_state 10000) 0 (Some SND_SEQ_EVENT_STOP)))
        [256, 512]) = 10000"
proof -
  have h: "g_jack_client (tracked_state 10000) \<and> transport_rolling (tracked_state 10000)
      \<and> current_frame (tracked_state 10000) = 10000"
    by (simp add: tracked_state_def initial_state_def)
  from frame_advances_only_while_rolling [of "tracked_state 10000" 256 0 "[256, 512]"] h
  show ?thesis by simp
qed

subsection \<open>Discarded samples\<close>

text \<open>
  Claim C7: on the pulse that closes a window (the pulse counter reaches 24), a
  non-positive elapsed time since the previous boundary discards the sample without any
  failure: no line is produced, the stored BPM and the measurement count stay as they
  are, the pulse counter goes back to 0 and the boundary instant becomes that of this pulse.
\<close>

theorem nonpositive_elapsed_discards_sample:
  assumes "first_clock_received s"
    and "pulse_count s + 1 \<ge> PULSES_PER_QUARTER"
    and "duration_cast_microseconds (now - last_pulse_time s) \<le> 0"
  shows "calculate_and_set_bpm s now = (s\<lparr> pulse_count := 0, last_pulse_time := now \<rparr>, None)
         \<and> current_bpm (fst (calculate_and_set_bpm s now)) = current_bpm s
         \<and> measurement_count (fst (calculate_and_set_bpm s now)) = measurement_count s
         \<and> pulse_count (fst (calculate_and_set_bpm s now)) = 0
         \<and> last_pulse_time (fst (calculate_and_set_bpm s now)) = now"
  using assms by (simp add: calculate_and_set_bpm_def Let_def)

theorem nonpositive_elapsed_discards_sample_witness:
  "first_clock_received (boundary_state 5000000)
   \<and> pulse_count (boundary_state 5000000) + 1 \<ge> PULSES_PER_QUARTER
   \<and> duration_cast_microseconds (4000000 - last_pulse_time (boundary_state 5000000)) \<le> 0
   \<and> calculate_and_set_bpm (boundary_state 5000000) 4000000
       = ((boundary_state 5000000)\<lparr> pulse_count := 0, last_pulse_time := 4000000 \<rparr>, None)"
proof -
  have h: "first_clock_received (boundary_state 5000000)"
    "pulse_count (boundary_state 5000000) + 1 \<ge> PULSES_PER_QUARTER"
    "duration_cast_microseconds (4000000 - last_pulse_time (boundary_state 5000000)) \<le> 0"
    by (simp_all add: boundary_state_def initial_state_def PULSES_PER_QUARTER_def
        duration_cast_microseconds_def)
  from nonpositive_elapsed_discards_sample [OF h] h show ?thesis by simp
qed

subsection \<open>The range of the stored BPM\<close>

text \<open>
  Claim C8: from the initial state, where the stored BPM is 120, the stored BPM stays within
  [20, 300] whatever events and callbacks are processed, clock pulses at any instants among
  them: the raw BPM is clamped, each blend lies between its two arguments, and snapping
  rounds a value of the range to an integer of the range.
\<close>

theorem current_bpm_stays_in_range:
  "20 \<le> current_bpm (run (initial_state rate) acts)
   \<and> current_bpm (run (initial_state rate) acts) \<le> 300"
  using run_bpm_in_range [OF initial_bpm_in_range, of rate acts]
  by (simp add: bpm_in_range_def MIN_BPM_def MAX_BPM_def)

subsection \<open>Start, advance, reset\<close>

text \<open>
  Claim C9: from any state in which events are processed (the JACK client is open), a Start
  event, then any number of process callbacks, then \<^verbatim>\<open>reset_transport\<close> leave frame, bar,
  beat and tick at (0, 1, 1, 0).
\<close>

theorem start_advance_reset_round_trip:
  assumes "g_jack_client s"
  shows "current_frame (reset_transport (foldl jack_process_callback
            (fst (process_midi_clock s now (Some SND_SEQ_EVENT_START))) ns)) = 0
         \<and> bar (reset_transport (foldl jack_process_callback
            (fst (process_midi_clock s now (Some SND_SEQ_EVENT_START))) ns)) = 1
         \<and> beat (reset_transport (foldl jack_process_callback
            (fst (process_midi_clock s now (Some SND_SEQ_EVENT_START))) ns)) = 1
         \<and> tick (reset_transport (foldl jack_process_callback
            (fst (process_midi_clock s now (Some SND_SEQ_EVENT_START))) ns)) = 0"
proof -
  define s1 where "s1 = fst (process_midi_clock s now (Some SND_SEQ_EVENT_START))"
  obtain c where c: "foldl jack_process_callback s1 ns = s1\<lparr> current_frame := c \<rparr>"
    using foldl_process_frame_only by blast
  have "g_jack_client s1"
    using assms by (simp add: s1_def process_midi_clock_def Let_def)
  then have "g_jack_client (s1\<lparr> current_frame := c \<rparr>)" by simp
  then show ?thesis
    unfolding s1_def [symmetric] c by (simp add: reset_transport_def Let_def)
qed

theorem start_advance_reset_round_trip_witness:
  "g_jack_client (tracked_state 777)
   \<and> current_frame (foldl jack_process_callback
        (fst (process_midi_clock (tracked_state 777) 7 (Some SND_SEQ_EVENT_START)))
        [256, 256, 1024]) = 1536
   \<and> current_frame (reset_transport (foldl jack_process_callback
        (fst (process_midi_clock (tracked_state 777) 7 (Some SND_SEQ_EVENT_START)))
        [256, 256, 1024])) = 0
   \<and> bar (reset_transport (foldl jack_process_callback
        (fst (process_midi_clock (tracked_state 777) 7 (Some SND_SEQ_EVENT_START)))
        [256, 256, 1024])) = 1"
proof -
  have h: "g_jack_client (tracked_state 777)"
    by (simp add: tracked_state_def initial_state_def)
  have f: "current_frame (foldl jack_process_callback
        (fst (process_midi_clock (tracked_state 777) 7 (Some SND_SEQ_EVENT_START)))
        [256, 256, 1024]) = 1536"
    by (simp add: tracked_state_def initial_state_def process_midi_clock_def
        jack_process_callback_def Let_def)
  from start_advance_reset_round_trip [OF h, of 7 "[256, 256, 1024]"] h f
  show ?thesis by blast
qed

subsection \<open>Position query without relocation\<close>

text \<open>
  Claim C10: a query with \<^verbatim>\<open>new_pos = 0\<close> stores the frame the host supplies into the
  internal frame counter before it computes the position. Whatever the process callback
  added to the counter before the query is gone afterwards: the outcome of the query is
  the same as if no process callback had run.
\<close>

theorem timebase_overwrites_frame_counter:
  "jack_timebase_callback (foldl jack_process_callback s ns) pos 0
     = jack_timebase_callback s pos 0
   \<and> current_frame (fst (jack_timebase_callback s pos 0)) = pos_frame pos
   \<and> pos_frame (snd (jack_timebase_callback s pos 0)) = pos_frame pos"
proof -
  obtain c where c: "foldl jack_process_callback s ns = s\<lparr> current_frame := c \<rparr>"
    using foldl_process_frame_only by blast
  show ?thesis
    unfolding c by (simp add: jack_timebase_callback_def Let_def)
qed

subsection \<open>The first sample of a measurement window\<close>

lemma even_pulses_Suc:
  "even_pulses t0 T (Suc n) = t0 # even_pulses (t0 + 1000 * T) T n"
  unfolding even_pulses_def by (simp add: map_upt_Suc algebra_simps del: upt_Suc)

lemma even_pulses_snoc:
  "even_pulses t0 T (Suc n) = even_pulses t0 T n @ [t0 + 1000 * T * int n]"
  by (simp add: even_pulses_def)

lemma length_even_pulses: "length (even_pulses t0 T n) = n"
  by (simp add: even_pulses_def)

lemma feed_clock_append:
  "feed_clock s (xs @ ys) =
     (fst (feed_clock (fst (feed_clock s xs)) ys),
      snd (feed_clock s xs) @ snd (feed_clock (fst (feed_clock s xs)) ys))"
  by (induction xs arbitrary: s) (simp_all add: Let_def case_prod_beta)

lemma calculate_below_boundary:
  assumes "first_clock_received s" and "pulse_count s + 1 < PULSES_PER_QUARTER"
  shows "calculate_and_set_bpm s now = (s\<lparr> pulse_count := pulse_count s + 1 \<rparr>, None)"
  using assms by (simp add: calculate_and_set_bpm_def Let_def)

lemma feed_below_boundary:
  assumes "first_clock_received s"
    and "pulse_count s + int (length ts) < PULSES_PER_QUARTER"
  shows "feed_clock s ts
    = (s\<lparr> pulse_count := pulse_count s + int (length ts) \<rparr>, replicate (length ts) None)"
  using assms
proof (induction ts arbitrary: s)
  case Nil
  then show ?case by simp
next
  case (Cons t ts)
  have c: "calculate_and_set_bpm s t = (s\<lparr> pulse_count := pulse_count s + 1 \<rparr>, None)"
    using Cons.prems by (intro calculate_below_boundary) simp_all
  have "feed_clock (s\<lparr> pulse_count := pulse_count s + 1 \<rparr>) ts
    = (s\<lparr> pulse_count := pulse_count s + 1 \<rparr>
        \<lparr> pulse_count := pulse_count (s\<lparr> pulse_count := pulse_count s + 1 \<rparr>) + int (length ts) \<rparr>,
       replicate (length ts) None)"
    using Cons.prems by (intro Cons.IH) simp_all
  with c show ?case by (simp add: Let_def add.assoc)
qed

lemma duration_cast_microseconds_exact:
  "0 < T \<Longrightarrow> duration_cast_microseconds (1000 * T * n) = T * n" if "0 \<le> n" for n
  using that by (cases "n = 0") (simp_all add: duration_cast_microseconds_def sgn_if mult_less_0_iff)

text \<open>A window opened at the boundary instant and 24 pulses, each T microseconds apart.\<close>

lemma feed_window:
  assumes "first_clock_received s" and "pulse_count s = 0" and "0 < T"
  shows "map (map_option log_raw)
           (snd (feed_clock s (even_pulses (last_pulse_time s + 1000 * T) T 24)))
         = replicate 23 None @ [Some (max 20 (min 300 (60000000 / of_int (24 * T))))]"
proof -
  define t1 where "t1 = last_pulse_time s + 1000 * T"
  define s23 where "s23 = s\<lparr> pulse_count := 23 \<rparr>"
  have l: "length (even_pulses t1 T 23) = 23" by (rule length_even_pulses)
  have f23: "feed_clock s (even_pulses t1 T 23) = (s23, replicate 23 None)"
    using feed_below_boundary [of s "even_pulses t1 T 23"] assms(1,2)
    by (simp add: l PULSES_PER_QUARTER_def s23_def)
  have e: "duration_cast_microseconds (t1 + 1000 * T * 23 - last_pulse_time s23) = 24 * T"
    using duration_cast_microseconds_exact [of 24 T] assms(3)
    by (simp add: t1_def s23_def algebra_simps)
  have h: "first_clock_received s23" "pulse_count s23 + 1 \<ge> PULSES_PER_QUARTER"
    using assms by (simp_all add: s23_def PULSES_PER_QUARTER_def)
  have h3: "0 < duration_cast_microseconds (t1 + 1000 * T * 23 - last_pulse_time s23)"
    unfolding e using assms(3) by simp
  have "map_option log_raw (snd (calculate_and_set_bpm s23 (t1 + 1000 * T * 23)))
      = Some (max 20 (min 300 (60000000 / of_int (24 * T))))"
    unfolding calculate_measurement [OF h h3] e by (simp add: MIN_BPM_def MAX_BPM_def)
  then show ?thesis
    unfolding t1_def [symmetric]
    by (simp add: even_pulses_snoc [of t1 T 23, simplified] feed_clock_append f23
        case_prod_beta Let_def)
qed

text \<open>A fresh state: the first pulse opens the window.\<close>

lemma calculate_first_clock:
  assumes "\<not> first_clock_received s"
  shows "first_clock_received (fst (calculate_and_set_bpm s now))"
    and "pulse_count (fst (calculate_and_set_bpm s now)) = 0"
    and "last_pulse_time (fst (calculate_and_set_bpm s now)) = now"
    and "snd (calculate_and_set_bpm s now) = None"
  using assms by (simp_all add: calculate_and_set_bpm_def Let_def)

lemma replicate_24: "replicate 24 x = x # replicate 23 x"
proof -
  have "(24::nat) = Suc 23" by simp
  then show ?thesis by (simp only: replicate_Suc)
qed

lemma feed_fresh:
  assumes "\<not> first_clock_received s" and "0 < T"
  shows "snd (feed_clock s (even_pulses t0 T 24)) = replicate 24 None"
    and "map (map_option log_raw) (snd (feed_clock s (even_pulses t0 T 25)))
         = replicate 24 None @ [Some (max 20 (min 300 (60000000 / of_int (24 * T))))]"
proof -
  define s1 where "s1 = fst (calculate_and_set_bpm s t0)"
  note f = calculate_first_clock [OF assms(1), of t0, folded s1_def]
  have c: "calculate_and_set_bpm s t0 = (s1, None)"
    using f(4) by (simp add: s1_def prod_eq_iff)
  have l: "length (even_pulses (t0 + 1000 * T) T 23) = 23" by (rule length_even_pulses)
  have "feed_clock s1 (even_pulses (t0 + 1000 * T) T 23)
      = (s1\<lparr> pulse_count := pulse_count s1 + int 23 \<rparr>, replicate 23 None)"
    using feed_below_boundary [of s1 "even_pulses (t0 + 1000 * T) T 23"] f(1,2)
    by (simp add: l PULSES_PER_QUARTER_def)
  then show "snd (feed_clock s (even_pulses t0 T 24)) = replicate 24 None"
    by (simp add: even_pulses_Suc [of t0 T 23, simplified] c Let_def replicate_24)
  have "map (map_option log_raw)
           (snd (feed_clock s1 (even_pulses (last_pulse_time s1 + 1000 * T) T 24)))
         = replicate 23 None @ [Some (max 20 (min 300 (60000000 / of_int (24 * T))))]"
    using f(1,2) assms(2) by (rule feed_window)
  then show "map (map_option log_raw) (snd (feed_clock s (even_pulses t0 T 25)))
         = replicate 24 None @ [Some (max 20 (min 300 (60000000 / of_int (24 * T))))]"
    by (simp add: even_pulses_Suc [of t0 T 24, simplified] c Let_def f(3) case_prod_beta
        replicate_24)
qed

text \<open>
  Claim C1 says that 24 evenly spaced pulses from a fresh window give a first sample with
  raw BPM \<open>60000000 / (23 * T)\<close>. With pulses 20000 microseconds apart from the initial
  state, the 24 pulses produce no sample at all; the sample comes with the 25th pulse and
  its raw BPM is 125, that is \<open>60000000 / (24 * 20000)\<close>, where the claim's formula
  gives about 130.4.
\<close>

theorem first_sample_23_gaps_counterexample:
  "\<not> first_clock_received (initial_state 48000)
   \<and> snd (feed_clock (initial_state 48000) (even_pulses 0 20000 24)) = replicate 24 None
   \<and> map (map_option log_raw) (snd (feed_clock (initial_state 48000) (even_pulses 0 20000 25)))
       = replicate 24 None @ [Some 125]
   \<and> max 20 (min 300 (60000000 / (23 * 20000))) \<noteq> (125::real)"
proof -
  have h: "\<not> first_clock_received (initial_state 48000)" "(0::int) < 20000"
    by (simp_all add: initial_state_def)
  from feed_fresh [OF h, of 0] h(1) show ?thesis by simp
qed

text \<open>
  Claim C1, amended: for evenly spaced clock pulses \<open>T\<close> microseconds apart (\<open>T > 0\<close>) the
  first sample of a measurement window spans 24 intervals, so its raw BPM is
  \<open>60000000 / (24 * T)\<close>, clamped to [20, 300]. From a fresh state (no clock received
  yet) the first pulse only opens the window: the first 24 pulses produce no sample and
  the 25th produces the first one. In a window opened at a boundary pulse the 23 pulses
  after the boundary produce no sample and the 24th produces it.
\<close>

theorem first_sample_spans_24_intervals:
  "(\<not> first_clock_received s \<and> 0 < T \<longrightarrow>
      snd (feed_clock s (even_pulses t0 T 24)) = replicate 24 None
      \<and> map (map_option log_raw) (snd (feed_clock s (even_pulses t0 T 25)))
          = replicate 24 None @ [Some (max 20 (min 300 (60000000 / of_int (24 * T))))])
   \<and> (first_clock_received s \<and> pulse_count s = 0 \<and> 0 < T \<longrightarrow>
      map (map_option log_raw)
        (snd (feed_clock s (even_pulses (last_pulse_time s + 1000 * T) T 24)))
      = replicate 23 None @ [Some (max 20 (min 300 (60000000 / of_int (24 * T))))])"
  using feed_fresh [of s T t0] feed_window [of s T] by blast

theorem first_sample_spans_24_intervals_witness:
  "\<not> first_clock_received (initial_state 44100) \<and> (0::int) < 10000
   \<and> snd (feed_clock (initial_state 44100) (even_pulses 7 10000 24)) = replicate 24 None
   \<and> map (map_option log_raw) (snd (feed_clock (initial_state 44100) (even_pulses 7 10000 25)))
       = replicate 24 None @ [Some 250]
   \<and> first_clock_received (boundary_state 0\<lparr> pulse_count := 0 \<rparr>)
   \<and> pulse_count (boundary_state 0\<lparr> pulse_count := 0 \<rparr>) = 0
   \<and> map (map_option log_raw)
        (snd (feed_clock (boundary_state 0\<lparr> pulse_count := 0 \<rparr>)
           (even_pulses (last_pulse_time (boundary_state 0\<lparr> pulse_count := 0 \<rparr>) + 1000 * 10000)
              10000 24)))
      = replicate 23 None @ [Some 250]"
proof -
  have h: "\<not> first_clock_received (initial_state 44100)" "(0::int) < 10000"
    "first_clock_received (boundary_state 0\<lparr> pulse_count := 0 \<rparr>)"
    "pulse_count (boundary_state 0\<lparr> pulse_count := 0 \<rparr>) = 0"
    by (simp_all add: initial_state_def boundary_state_def)
  have v: "max 20 (min 300 (60000000 / real_of_int (24 * 10000))) = 250" by simp
  from first_sample_spans_24_intervals [of "initial_state 44100" 10000 7]
    first_sample_spans_24_intervals [of "boundary_state 0\<lparr> pulse_count := 0 \<rparr>" 10000] h
  show ?thesis unfolding v by blast
qed

subsection \<open>Snapping to an integer\<close>


















end
